theory Spec2Isabelle
  imports Main
begin

section \<open>Data model\<close>

text \<open>
  The server keeps one process-wide map from user id to WebSocket, one closure variable
  \<open>userId\<close> per connection, and a relational store reached through \<open>storage\<close>.
  Identifiers are strings (\<open>varchar\<close> columns, JSON strings), a socket is named by a
  number standing for the identity of the \<open>WebSocket\<close> object, and a \<open>Date\<close> is its
  \<open>getTime()\<close> value in milliseconds.

  Tables are lists of rows in the order in which a \<open>select\<close> without \<open>orderBy\<close> returns
  them. Columns that no modelled operation reads or writes (passwords, profile fields, the
  row ids of the two participant tables, message tables) are left out.

  A query raises in two cases: an \<open>insert\<close> whose row refers, through a column
  declared with \<open>references\<close>, to a row that does not exist, and an \<open>update\<close>
  whose \<open>set\<close> object has no defined value, which the query builder refuses. A
  failing operation returns \<open>None\<close> and writes nothing; what earlier statements of
  the same handler wrote stays, since no handler opens a transaction. The identifier
  drawn by \<open>gen_random_uuid()\<close> for an inserted row is an argument of the operation
  that inserts it. One clock reading \<open>now\<close> serves every \<open>new Date()\<close> and
  \<open>defaultNow()\<close> of one handler run.
\<close>

type_synonym ident = string
type_synonym socket = nat
type_synonym time = int

datatype ready_state = CONNECTING | OPEN | CLOSING | CLOSED

datatype user_status = Online | Away | Busy | Offline
datatype conversation_type = Direct | Group
datatype participant_role = Owner | Admin | Member
datatype call_type = Voice | Video
datatype call_status = Initiated | Ringing | Active | Ended | Missed | Declined

record user =
  u_id :: ident
  u_username :: string
  u_status :: "user_status option"
  u_lastSeenAt :: "time option"
  u_updatedAt :: "time option"

record conversation =
  cv_id :: ident
  cv_type :: conversation_type
  cv_name :: "string option"
  cv_description :: "string option"
  cv_createdById :: "ident option"
  cv_lastActivityAt :: "time option"

record participant =
  cp_conversationId :: ident
  cp_userId :: ident
  cp_role :: "participant_role option"
  cp_joinedAt :: "time option"
  cp_isTyping :: "bool option"
  cp_typingUpdatedAt :: "time option"

record call =
  cl_id :: ident
  cl_conversationId :: "ident option"
  cl_initiatorId :: ident
  cl_type :: call_type
  cl_status :: call_status
  cl_startedAt :: "time option"
  cl_endedAt :: "time option"
  cl_duration :: "int option"
  cl_createdAt :: "time option"

record call_participant =
  pt_callId :: ident
  pt_userId :: ident
  pt_joinedAt :: "time option"
  pt_leftAt :: "time option"
  pt_isMuted :: "bool option"
  pt_isVideoOff :: "bool option"
  pt_isScreenSharing :: "bool option"

record database =
  users :: "user list"
  conversations :: "conversation list"
  conversationParticipants :: "participant list"
  calls :: "call list"
  callParticipants :: "call_participant list"

text \<open>\<open>ConversationWithDetails\<close>, without the last message and the unread count.\<close>

record conversation_details =
  cd_conversation :: conversation
  cd_participants :: "(participant \<times> user) list"

text \<open>
  The payload of an inbound envelope: every field a handler reads, \<open>None\<close> when the JSON
  object has no such key.
\<close>

record payload =
  p_userId :: "ident option"
  p_conversationId :: "ident option"
  p_isTyping :: "bool option"
  p_callId :: "ident option"
  p_type :: "call_type option"
  p_isMuted :: "bool option"
  p_isVideoOff :: "bool option"
  p_isScreenSharing :: "bool option"
  p_targetUserId :: "ident option"
  p_candidate :: "string option"
  p_offer :: "string option"
  p_answer :: "string option"

text \<open>Outbound events: one constructor per \<open>type\<close> string, carrying its payload.\<close>

datatype event =
    NewConversation "conversation_details option"
  | TypingStatus ident ident "bool option"
  | IncomingCall call "user option"
  | CallAccepted ident ident
  | CallDeclined ident ident
  | CallEnded ident ident int
  | ParticipantMediaChanged ident ident payload
  | UserStatusChanged ident user_status
  | IceCandidate ident string
  | WebrtcOffer ident string
  | WebrtcAnswer ident string

text \<open>
  One \<open>client.send\<close> of \<open>broadcastToUsers\<close>: the user id whose registry entry was looked
  up, the socket found there, and the serialised event.
\<close>

record delivery =
  recipient :: ident
  via :: socket
  sent :: event

record server =
  clients :: "ident \<rightharpoonup> socket"
  conn_userId :: "socket \<Rightarrow> ident option"
  readyState :: "socket \<Rightarrow> ready_state"
  db :: database
  outbox :: "delivery list"

text \<open>JavaScript truthiness of a string that may be absent: present and not empty.\<close>

fun truthy :: "string option \<Rightarrow> bool" where
  "truthy None = False"
| "truthy (Some s) = (s \<noteq> [])"

section \<open>Storage\<close>

definition getUser :: "database \<Rightarrow> ident \<Rightarrow> user option" where
  "getUser d i = find (\<lambda>u. u_id u = i) (users d)"

definition updateUserStatus :: "time \<Rightarrow> database \<Rightarrow> ident \<Rightarrow> user_status \<Rightarrow> database" where
  "updateUserStatus now d i st =
     d\<lparr>users := map (\<lambda>u. if u_id u = i
                            then u\<lparr>u_status := Some st, u_lastSeenAt := Some now,
                                   u_updatedAt := Some now\<rparr>
                            else u) (users d)\<rparr>"

definition getConversation :: "database \<Rightarrow> ident \<Rightarrow> conversation option" where
  "getConversation d i = find (\<lambda>c. cv_id c = i) (conversations d)"

fun attach_users :: "database \<Rightarrow> participant list \<Rightarrow> (participant \<times> user) list" where
  "attach_users d [] = []"
| "attach_users d (p # ps) =
     (case getUser d (cp_userId p) of
        None \<Rightarrow> attach_users d ps
      | Some u \<Rightarrow> (p, u) # attach_users d ps)"

definition getParticipants :: "database \<Rightarrow> ident \<Rightarrow> (participant \<times> user) list" where
  "getParticipants d cid =
     attach_users d (filter (\<lambda>p. cp_conversationId p = cid) (conversationParticipants d))"

definition getConversationWithDetails ::
  "database \<Rightarrow> ident \<Rightarrow> ident \<Rightarrow> conversation_details option" where
  "getConversationWithDetails d i userId =
     (case getConversation d i of
        None \<Rightarrow> None
      | Some c \<Rightarrow> Some \<lparr>cd_conversation = c, cd_participants = getParticipants d i\<rparr>)"

text \<open>
  \<open>orderBy(desc(lastActivityAt))\<close>: latest first, rows without a timestamp before all
  others (the database's default for a descending sort), ties in table order.
\<close>

fun precedes :: "time option \<Rightarrow> time option \<Rightarrow> bool" where
  "precedes None _ = True"
| "precedes (Some a) None = False"
| "precedes (Some a) (Some b) = (b \<le> a)"

fun insert_desc :: "conversation \<Rightarrow> conversation list \<Rightarrow> conversation list" where
  "insert_desc c [] = [c]"
| "insert_desc c (e # es) =
     (if precedes (cv_lastActivityAt c) (cv_lastActivityAt e) then c # e # es
      else e # insert_desc c es)"

fun orderBy_desc :: "conversation list \<Rightarrow> conversation list" where
  "orderBy_desc [] = []"
| "orderBy_desc (c # cs) = insert_desc c (orderBy_desc cs)"

fun collect_details :: "database \<Rightarrow> ident \<Rightarrow> conversation list \<Rightarrow> conversation_details list" where
  "collect_details d userId [] = []"
| "collect_details d userId (conv # rest) =
     (case getConversationWithDetails d (cv_id conv) userId of
        None \<Rightarrow> collect_details d userId rest
      | Some details \<Rightarrow> details # collect_details d userId rest)"

definition getUserConversations :: "database \<Rightarrow> ident \<Rightarrow> conversation_details list" where
  "getUserConversations d userId =
     (let conversationIds =
            map cp_conversationId
              (filter (\<lambda>p. cp_userId p = userId) (conversationParticipants d))
      in if conversationIds = [] then []
         else collect_details d userId
                (orderBy_desc
                   (filter (\<lambda>c. cv_id c \<in> set conversationIds) (conversations d))))"

section \<open>Broadcaster\<close>

definition send_to :: "server \<Rightarrow> ident \<Rightarrow> event \<Rightarrow> server" where
  "send_to s userId ev =
     (case clients s userId of
        None \<Rightarrow> s
      | Some client \<Rightarrow>
          if readyState s client = OPEN
          then s\<lparr>outbox := outbox s @ [\<lparr>recipient = userId, via = client, sent = ev\<rparr>]\<rparr>
          else s)"

fun broadcastToUsers :: "server \<Rightarrow> ident list \<Rightarrow> event \<Rightarrow> server" where
  "broadcastToUsers s [] ev = s"
| "broadcastToUsers s (userId # rest) ev = broadcastToUsers (send_to s userId ev) rest ev"

definition broadcastToConversation ::
  "server \<Rightarrow> ident \<Rightarrow> event \<Rightarrow> ident option \<Rightarrow> server" where
  "broadcastToConversation s conversationId ev excludeUserId =
     broadcastToUsers s
       (filter (\<lambda>i. Some i \<noteq> excludeUserId)
          (map (\<lambda>(p, u). cp_userId p) (getParticipants (db s) conversationId)))
       ev"

section \<open>Presence: the user-online message and the close of a connection\<close>

text \<open>A JavaScript \<open>Set\<close> keeps its elements in the order of their first insertion.\<close>

definition set_add :: "'a list \<Rightarrow> 'a \<Rightarrow> 'a list" where
  "set_add xs x = (if x \<in> set xs then xs else xs @ [x])"

definition contactIds :: "ident \<Rightarrow> conversation_details list \<Rightarrow> ident list" where
  "contactIds userId convs =
     fold (\<lambda>conv acc.
             fold (\<lambda>(p, u) acc'. if cp_userId p \<noteq> userId then set_add acc' (cp_userId p) else acc')
                  (cd_participants conv) acc)
          convs []"

definition notify_contacts :: "time \<Rightarrow> server \<Rightarrow> ident \<Rightarrow> user_status \<Rightarrow> server" where
  "notify_contacts now s userId st =
     (let s1 = s\<lparr>db := updateUserStatus now (db s) userId st\<rparr>;
          convs = getUserConversations (db s1) userId
      in broadcastToUsers s1 (contactIds userId convs) (UserStatusChanged userId st))"

definition on_user_online :: "time \<Rightarrow> server \<Rightarrow> socket \<Rightarrow> payload \<Rightarrow> server" where
  "on_user_online now s ws p =
     (let s1 = s\<lparr>conn_userId := (conn_userId s)(ws := p_userId p)\<rparr>
      in if truthy (p_userId p)
         then notify_contacts now
                (s1\<lparr>clients := (clients s1)(the (p_userId p) \<mapsto> ws)\<rparr>)
                (the (p_userId p)) Online
         else s1)"

definition on_close :: "time \<Rightarrow> server \<Rightarrow> socket \<Rightarrow> server" where
  "on_close now s ws =
     (if truthy (conn_userId s ws)
      then notify_contacts now
             (s\<lparr>clients := (clients s)(the (conn_userId s ws) := None)\<rparr>)
             (the (conn_userId s ws)) Offline
      else s)"

section \<open>Typing\<close>

definition updateTypingStatus ::
  "time \<Rightarrow> database \<Rightarrow> ident \<Rightarrow> ident \<Rightarrow> bool option \<Rightarrow> database" where
  "updateTypingStatus now d conversationId userId isTyping =
     d\<lparr>conversationParticipants :=
          map (\<lambda>p. if cp_conversationId p = conversationId \<and> cp_userId p = userId
                    then p\<lparr>cp_isTyping := (case isTyping of None \<Rightarrow> cp_isTyping p
                                                            | Some b \<Rightarrow> Some b),
                           cp_typingUpdatedAt := Some now\<rparr>
                    else p)
              (conversationParticipants d)\<rparr>"

definition on_typing :: "time \<Rightarrow> server \<Rightarrow> socket \<Rightarrow> payload \<Rightarrow> server" where
  "on_typing now s ws p =
     (if truthy (conn_userId s ws) \<and> truthy (p_conversationId p)
      then let userId = the (conn_userId s ws);
               conversationId = the (p_conversationId p);
               s1 = s\<lparr>db := updateTypingStatus now (db s) conversationId userId (p_isTyping p)\<rparr>
           in broadcastToConversation s1 conversationId
                (TypingStatus conversationId userId (p_isTyping p)) (Some userId)
      else s)"

section \<open>Call lifecycle\<close>

text \<open>
  Every handler of the socket runs inside one \<open>try\<close>: when a storage operation
  raises, the \<open>catch\<close> logs the error and the rest of the handler is skipped.
\<close>

text \<open>\<open>InsertCall\<close> as the two call sites fill it, and the \<open>Partial\<close> objects handed to
  the two update operations: \<open>None\<close> is a key that is absent or \<open>undefined\<close>.\<close>

record insert_call =
  ic_conversationId :: "ident option"
  ic_initiatorId :: ident
  ic_type :: "call_type option"
  ic_status :: call_status

record call_update =
  up_status :: "call_status option"
  up_startedAt :: "time option"
  up_endedAt :: "time option"
  up_duration :: "int option"

record media_update =
  mu_isMuted :: "bool option"
  mu_isVideoOff :: "bool option"
  mu_isScreenSharing :: "bool option"

definition getCall :: "database \<Rightarrow> ident \<Rightarrow> call option" where
  "getCall d i = find (\<lambda>c. cl_id c = i) (calls d)"

text \<open>
  \<open>calls.conversation_id\<close> is nullable and references \<open>conversations.id\<close>;
  \<open>calls.initiator_id\<close> references \<open>users.id\<close>.
\<close>

definition createCall ::
  "time \<Rightarrow> ident \<Rightarrow> database \<Rightarrow> insert_call \<Rightarrow> (call \<times> database) option" where
  "createCall now uuid d data =
     (if (case ic_conversationId data of
            None \<Rightarrow> False
          | Some cid \<Rightarrow> getConversation d cid = None)
         \<or> getUser d (ic_initiatorId data) = None
      then None
      else
      let c = \<lparr>cl_id = uuid,
                cl_conversationId = ic_conversationId data,
                cl_initiatorId = ic_initiatorId data,
                cl_type = (case ic_type data of None \<Rightarrow> Voice | Some t \<Rightarrow> t),
                cl_status = ic_status data,
                cl_startedAt = None, cl_endedAt = None, cl_duration = None,
                cl_createdAt = Some now\<rparr>
      in Some (c, d\<lparr>calls := calls d @ [c]\<rparr>))"

definition apply_call_update :: "call_update \<Rightarrow> call \<Rightarrow> call" where
  "apply_call_update data c =
     c\<lparr>cl_status := (case up_status data of None \<Rightarrow> cl_status c | Some v \<Rightarrow> v),
       cl_startedAt := (case up_startedAt data of None \<Rightarrow> cl_startedAt c | Some v \<Rightarrow> Some v),
       cl_endedAt := (case up_endedAt data of None \<Rightarrow> cl_endedAt c | Some v \<Rightarrow> Some v),
       cl_duration := (case up_duration data of None \<Rightarrow> cl_duration c | Some v \<Rightarrow> Some v)\<rparr>"

definition updateCall :: "database \<Rightarrow> ident \<Rightarrow> call_update \<Rightarrow> database option" where
  "updateCall d i data =
     (if up_status data = None \<and> up_startedAt data = None \<and> up_endedAt data = None
         \<and> up_duration data = None
      then None
      else Some (d\<lparr>calls := map (\<lambda>c. if cl_id c = i then apply_call_update data c else c)
                                 (calls d)\<rparr>))"

text \<open>
  \<open>call_participants.call_id\<close> references \<open>calls.id\<close> and
  \<open>call_participants.user_id\<close> references \<open>users.id\<close>.
\<close>

definition addCallParticipant ::
  "time \<Rightarrow> database \<Rightarrow> ident \<Rightarrow> ident \<Rightarrow> database option" where
  "addCallParticipant now d callId userId =
     (if getCall d callId = None \<or> getUser d userId = None then None
      else Some (d\<lparr>callParticipants := callParticipants d @
                   [\<lparr>pt_callId = callId, pt_userId = userId, pt_joinedAt = Some now,
                     pt_leftAt = None, pt_isMuted = Some False, pt_isVideoOff = Some False,
                     pt_isScreenSharing = Some False\<rparr>]\<rparr>))"

definition apply_media_update :: "media_update \<Rightarrow> call_participant \<Rightarrow> call_participant" where
  "apply_media_update data r =
     r\<lparr>pt_isMuted := (case mu_isMuted data of None \<Rightarrow> pt_isMuted r | Some b \<Rightarrow> Some b),
       pt_isVideoOff := (case mu_isVideoOff data of None \<Rightarrow> pt_isVideoOff r | Some b \<Rightarrow> Some b),
       pt_isScreenSharing :=
         (case mu_isScreenSharing data of None \<Rightarrow> pt_isScreenSharing r | Some b \<Rightarrow> Some b)\<rparr>"

definition updateCallParticipant ::
  "database \<Rightarrow> ident \<Rightarrow> ident \<Rightarrow> media_update \<Rightarrow> database option" where
  "updateCallParticipant d callId userId data =
     (if mu_isMuted data = None \<and> mu_isVideoOff data = None \<and> mu_isScreenSharing data = None
      then None
      else Some (d\<lparr>callParticipants :=
                     map (\<lambda>r. if pt_callId r = callId \<and> pt_userId r = userId
                               then apply_media_update data r else r)
                         (callParticipants d)\<rparr>))"

definition on_start_call :: "time \<Rightarrow> ident \<Rightarrow> server \<Rightarrow> socket \<Rightarrow> payload \<Rightarrow> server" where
  "on_start_call now uuid s ws p =
     (if truthy (conn_userId s ws) \<and> truthy (p_conversationId p)
      then let userId = the (conn_userId s ws)
           in case createCall now uuid (db s)
                     \<lparr>ic_conversationId = p_conversationId p, ic_initiatorId = userId,
                      ic_type = p_type p, ic_status = Initiated\<rparr> of
                None \<Rightarrow> s
              | Some (call, d1) \<Rightarrow>
                  (case addCallParticipant now d1 (cl_id call) userId of
                     None \<Rightarrow> s\<lparr>db := d1\<rparr>
                   | Some d2 \<Rightarrow>
                       broadcastToConversation (s\<lparr>db := d2\<rparr>) (the (p_conversationId p))
                         (IncomingCall call (getUser d2 userId)) (Some userId))
      else s)"

definition on_accept_call :: "time \<Rightarrow> server \<Rightarrow> socket \<Rightarrow> payload \<Rightarrow> server" where
  "on_accept_call now s ws p =
     (if truthy (conn_userId s ws) \<and> truthy (p_callId p)
      then let userId = the (conn_userId s ws)
           in case getCall (db s) (the (p_callId p)) of
                None \<Rightarrow> s
              | Some call \<Rightarrow>
                  (case addCallParticipant now (db s) (cl_id call) userId of
                     None \<Rightarrow> s
                   | Some d1 \<Rightarrow>
                       (case updateCall d1 (cl_id call)
                               \<lparr>up_status = Some Active, up_startedAt = Some now,
                                up_endedAt = None, up_duration = None\<rparr> of
                          None \<Rightarrow> s\<lparr>db := d1\<rparr>
                        | Some d2 \<Rightarrow>
                            if truthy (cl_conversationId call)
                            then broadcastToConversation (s\<lparr>db := d2\<rparr>)
                                   (the (cl_conversationId call))
                                   (CallAccepted (cl_id call) userId) None
                            else s\<lparr>db := d2\<rparr>))
      else s)"

definition on_decline_call :: "server \<Rightarrow> socket \<Rightarrow> payload \<Rightarrow> server" where
  "on_decline_call s ws p =
     (if truthy (conn_userId s ws) \<and> truthy (p_callId p)
      then let userId = the (conn_userId s ws)
           in case getCall (db s) (the (p_callId p)) of
                None \<Rightarrow> s
              | Some call \<Rightarrow>
                  (case updateCall (db s) (cl_id call)
                          \<lparr>up_status = Some Declined, up_startedAt = None,
                           up_endedAt = None, up_duration = None\<rparr> of
                     None \<Rightarrow> s
                   | Some d1 \<Rightarrow>
                       if truthy (cl_conversationId call)
                       then broadcastToConversation (s\<lparr>db := d1\<rparr>)
                              (the (cl_conversationId call))
                              (CallDeclined (cl_id call) userId) None
                       else s\<lparr>db := d1\<rparr>)
      else s)"

text \<open>\<open>Math.floor\<close> of the millisecond difference over 1000: \<open>div\<close> on \<open>int\<close> rounds
  towards minus infinity as \<open>Math.floor\<close> does. A \<open>Date\<close> object is truthy whatever
  its value, so only an unset \<open>startedAt\<close> takes the second branch.\<close>

definition call_duration :: "time option \<Rightarrow> time \<Rightarrow> int" where
  "call_duration startedAt endedAt =
     (case startedAt of Some t \<Rightarrow> (endedAt - t) div 1000 | None \<Rightarrow> 0)"

definition on_end_call :: "time \<Rightarrow> server \<Rightarrow> socket \<Rightarrow> payload \<Rightarrow> server" where
  "on_end_call now s ws p =
     (if truthy (conn_userId s ws) \<and> truthy (p_callId p)
      then let userId = the (conn_userId s ws)
           in case getCall (db s) (the (p_callId p)) of
                None \<Rightarrow> s
              | Some call \<Rightarrow>
                  (let endedAt = now;
                       duration = call_duration (cl_startedAt call) endedAt
                   in case updateCall (db s) (cl_id call)
                             \<lparr>up_status = Some Ended, up_startedAt = None,
                              up_endedAt = Some endedAt, up_duration = Some duration\<rparr> of
                        None \<Rightarrow> s
                      | Some d1 \<Rightarrow>
                          if truthy (cl_conversationId call)
                          then broadcastToConversation (s\<lparr>db := d1\<rparr>)
                                 (the (cl_conversationId call))
                                 (CallEnded (cl_id call) userId duration) None
                          else s\<lparr>db := d1\<rparr>)
      else s)"

text \<open>
  The three media toggles share one handler. The event's payload is
  \<open>{callId, userId, ...payload}\<close>: a \<open>userId\<close> key of the inbound payload overrides the
  sender's id. When the update raises, the handler's \<open>catch\<close> logs and nothing else
  happens.
\<close>

definition on_toggle :: "string \<Rightarrow> server \<Rightarrow> socket \<Rightarrow> payload \<Rightarrow> server" where
  "on_toggle type s ws p =
     (if truthy (conn_userId s ws) \<and> truthy (p_callId p)
      then let userId = the (conn_userId s ws);
               callId = the (p_callId p)
           in case updateCallParticipant (db s) callId userId
                     \<lparr>mu_isMuted = (if type = ''toggle-mute'' then p_isMuted p else None),
                      mu_isVideoOff = (if type = ''toggle-video'' then p_isVideoOff p else None),
                      mu_isScreenSharing =
                        (if type = ''toggle-screen-share'' then p_isScreenSharing p else None)\<rparr> of
                None \<Rightarrow> s
              | Some d1 \<Rightarrow>
                  (case getCall d1 callId of
                     None \<Rightarrow> s\<lparr>db := d1\<rparr>
                   | Some call \<Rightarrow>
                       if truthy (cl_conversationId call)
                       then broadcastToConversation (s\<lparr>db := d1\<rparr>)
                              (the (cl_conversationId call))
                              (ParticipantMediaChanged callId
                                 (case p_userId p of None \<Rightarrow> userId | Some x \<Rightarrow> x) p)
                              (Some userId)
                       else s\<lparr>db := d1\<rparr>)
      else s)"

section \<open>Signaling relay\<close>

text \<open>The relayed value is taken as a string; it is relayed only when truthy.\<close>

definition on_signal ::
  "(ident \<Rightarrow> string \<Rightarrow> event) \<Rightarrow> string option \<Rightarrow> server \<Rightarrow> socket \<Rightarrow> payload \<Rightarrow> server" where
  "on_signal mk body s ws p =
     (if truthy (conn_userId s ws) \<and> truthy (p_targetUserId p) \<and> truthy body
      then broadcastToUsers s [the (p_targetUserId p)] (mk (the (conn_userId s ws)) (the body))
      else s)"

section \<open>Event router\<close>

text \<open>
  One inbound frame: text that \<open>JSON.parse\<close> rejects, or an envelope with its \<open>type\<close>
  and its \<open>payload\<close> (absent when the envelope has none). Every case of the switch reads
  a field of the payload only to assign or to test it, so an envelope without payload
  either raises into the \<open>catch\<close> or fails its guard: nothing changes.
\<close>

datatype frame = Unparsable | Envelope string "payload option"

definition dispatch :: "time \<Rightarrow> ident \<Rightarrow> server \<Rightarrow> socket \<Rightarrow> string \<Rightarrow> payload \<Rightarrow> server" where
  "dispatch now uuid s ws type p =
     (if type = ''user-online'' then on_user_online now s ws p
      else if type = ''typing'' then on_typing now s ws p
      else if type = ''start-call'' then on_start_call now uuid s ws p
      else if type = ''accept-call'' then on_accept_call now s ws p
      else if type = ''decline-call'' then on_decline_call s ws p
      else if type = ''end-call'' then on_end_call now s ws p
      else if type = ''toggle-mute'' \<or> type = ''toggle-video'' \<or> type = ''toggle-screen-share''
        then on_toggle type s ws p
      else if type = ''ice-candidate'' then on_signal IceCandidate (p_candidate p) s ws p
      else if type = ''webrtc-offer'' then on_signal WebrtcOffer (p_offer p) s ws p
      else if type = ''webrtc-answer'' then on_signal WebrtcAnswer (p_answer p) s ws p
      else s)"

fun on_message :: "time \<Rightarrow> ident \<Rightarrow> server \<Rightarrow> socket \<Rightarrow> frame \<Rightarrow> server" where
  "on_message now uuid s ws Unparsable = s"
| "on_message now uuid s ws (Envelope type None) = s"
| "on_message now uuid s ws (Envelope type (Some p)) = dispatch now uuid s ws type p"

section \<open>Request handlers\<close>













section \<open>Vocabulary of the properties\<close>

text \<open>
  A user is connected when the registry holds a socket for the id and that socket is
  open. \<open>deliveries\<close> is what one run of \<open>broadcastToUsers\<close> appends to the
  outbox, and \<open>members\<close> are the user ids that the membership query resolves for a
  conversation.
\<close>

definition connected :: "server \<Rightarrow> ident \<Rightarrow> bool" where
  "connected s u = (case clients s u of None \<Rightarrow> False | Some c \<Rightarrow> readyState s c = OPEN)"

definition deliveries :: "server \<Rightarrow> ident list \<Rightarrow> event \<Rightarrow> delivery list" where
  "deliveries s ids ev =
     map (\<lambda>u. \<lparr>recipient = u, via = the (clients s u), sent = ev\<rparr>) (filter (connected s) ids)"

definition members :: "database \<Rightarrow> ident \<Rightarrow> ident list" where
  "members d cid = map (\<lambda>(p, u). cp_userId p) (getParticipants d cid)"





section \<open>A sample deployment\<close>

text \<open>
  Three users share one group conversation with three calls in it: one ended, one still
  ringing, one running. Alice and Bob are online on sockets 1 and 2; sockets 3 and 4 are
  open and not yet identified; Carol is offline.
\<close>

definition no_fields :: payload where
  "no_fields = \<lparr>p_userId = None, p_conversationId = None, p_isTyping = None, p_callId = None,
                 p_type = None, p_isMuted = None, p_isVideoOff = None, p_isScreenSharing = None,
                 p_targetUserId = None, p_candidate = None, p_offer = None, p_answer = None\<rparr>"

definition person :: "ident \<Rightarrow> user" where
  "person i = \<lparr>u_id = i, u_username = i, u_status = Some Offline, u_lastSeenAt = None,
               u_updatedAt = None\<rparr>"

definition seat :: "ident \<Rightarrow> ident \<Rightarrow> participant" where
  "seat c i = \<lparr>cp_conversationId = c, cp_userId = i, cp_role = Some Member,
               cp_joinedAt = Some 0, cp_isTyping = Some False, cp_typingUpdatedAt = None\<rparr>"

definition leg :: "ident \<Rightarrow> ident \<Rightarrow> call_participant" where
  "leg c i = \<lparr>pt_callId = c, pt_userId = i, pt_joinedAt = Some 0, pt_leftAt = None,
              pt_isMuted = Some False, pt_isVideoOff = Some True, pt_isScreenSharing = Some False\<rparr>"

definition finished_call :: call where
  "finished_call = \<lparr>cl_id = ''call-1'', cl_conversationId = Some ''room'',
                     cl_initiatorId = ''alice'', cl_type = Voice, cl_status = Ended,
                     cl_startedAt = Some 1000, cl_endedAt = Some 31000, cl_duration = Some 30,
                     cl_createdAt = Some 0\<rparr>"

definition ringing_call :: call where
  "ringing_call = \<lparr>cl_id = ''call-2'', cl_conversationId = Some ''room'',
                    cl_initiatorId = ''alice'', cl_type = Video, cl_status = Initiated,
                    cl_startedAt = None, cl_endedAt = None, cl_duration = None,
                    cl_createdAt = Some 40000\<rparr>"

definition running_call :: call where
  "running_call = \<lparr>cl_id = ''call-3'', cl_conversationId = Some ''room'',
                    cl_initiatorId = ''alice'', cl_type = Video, cl_status = Active,
                    cl_startedAt = Some 50000, cl_endedAt = None, cl_duration = None,
                    cl_createdAt = Some 45000\<rparr>"

definition demo_db :: database where
  "demo_db = \<lparr>users = [person ''alice'', person ''bob'', person ''carol''],
               conversations = [\<lparr>cv_id = ''room'', cv_type = Group, cv_name = Some ''team'',
                                 cv_description = None, cv_createdById = Some ''alice'',
                                 cv_lastActivityAt = Some 0\<rparr>],
               conversationParticipants =
                 [seat ''room'' ''alice'', seat ''room'' ''bob'', seat ''room'' ''carol''],
               calls = [finished_call, ringing_call, running_call],
               callParticipants =
                 [leg ''call-1'' ''alice'', leg ''call-1'' ''bob'', leg ''call-2'' ''alice'',
                  leg ''call-3'' ''alice'', leg ''call-3'' ''carol'']\<rparr>"

definition demo :: server where
  "demo = \<lparr>clients = [''alice'' \<mapsto> 1, ''bob'' \<mapsto> 2],
            conn_userId = (\<lambda>_. None)(1 := Some ''alice'', 2 := Some ''bob''),
            readyState = (\<lambda>_. CLOSED)(1 := OPEN, 2 := OPEN, 3 := OPEN, 4 := OPEN),
            db = demo_db, outbox = []\<rparr>"

text \<open>
  Carol identifies herself on socket 3 and then again on socket 4, as a client does that
  reconnects before its old connection has closed.
\<close>

definition reconnected :: server where
  "reconnected =
     on_message 20 [] (on_message 10 [] demo 3
                          (Envelope ''user-online'' (Some (no_fields\<lparr>p_userId := Some ''carol''\<rparr>))))
       4 (Envelope ''user-online'' (Some (no_fields\<lparr>p_userId := Some ''carol''\<rparr>)))"




lemmas demo_defs = demo_def demo_db_def person_def seat_def leg_def finished_call_def
  ringing_call_def running_call_def no_fields_def

section \<open>Facts about the broadcaster and the store\<close>

lemma send_to_eq:
  "send_to s u ev = s\<lparr>outbox := outbox s @ deliveries s [u] ev\<rparr>"
  by (simp add: send_to_def deliveries_def connected_def split: option.splits)

lemma connected_outbox [simp]: "connected (s\<lparr>outbox := ob\<rparr>) = connected s"
  by (rule ext) (simp add: connected_def split: option.splits)

lemma connected_db [simp]: "connected (s\<lparr>db := d\<rparr>) = connected s"
  by (rule ext) (simp add: connected_def split: option.splits)

lemma deliveries_outbox [simp]: "deliveries (s\<lparr>outbox := ob\<rparr>) ids ev = deliveries s ids ev"
  by (simp add: deliveries_def)

lemma deliveries_db [simp]: "deliveries (s\<lparr>db := d\<rparr>) ids ev = deliveries s ids ev"
  by (simp add: deliveries_def)

lemma deliveries_Cons:
  "deliveries s (u # us) ev = deliveries s [u] ev @ deliveries s us ev"
  by (simp add: deliveries_def)

lemma broadcastToUsers_eq:
  "broadcastToUsers s ids ev = s\<lparr>outbox := outbox s @ deliveries s ids ev\<rparr>"
proof (induction ids arbitrary: s)
  case Nil
  show ?case by (simp add: deliveries_def)
next
  case (Cons u us)
  show ?case
    by (simp add: Cons.IH send_to_eq deliveries_Cons [of s u us])
qed


lemma broadcastToConversation_eq:
  "broadcastToConversation s cid ev ex =
     s\<lparr>outbox := outbox s @ deliveries s (filter (\<lambda>i. Some i \<noteq> ex) (members (db s) cid)) ev\<rparr>"
  by (simp add: broadcastToConversation_def broadcastToUsers_eq members_def)

lemma deliveries_mem:
  "x \<in> set (deliveries s ids ev) \<longleftrightarrow>
     (\<exists>m \<in> set ids. connected s m \<and> x = \<lparr>recipient = m, via = the (clients s m), sent = ev\<rparr>)"
  by (auto simp add: deliveries_def)

lemma recipients_deliveries:
  "recipient ` set (deliveries s ids ev) = {m \<in> set ids. connected s m}"
  by (auto simp add: deliveries_def image_iff)

lemma notify_contacts_clients [simp]: "clients (notify_contacts now s u st) = clients s"
  by (simp add: notify_contacts_def Let_def broadcastToUsers_eq)

lemma notify_contacts_conn [simp]: "conn_userId (notify_contacts now s u st) = conn_userId s"
  by (simp add: notify_contacts_def Let_def broadcastToUsers_eq)

lemma find_Some_id: "find (\<lambda>c. f c = i) xs = Some c \<Longrightarrow> f c = i"
  by (induction xs) (auto split: if_splits)


lemma find_map_update:
  assumes "find (\<lambda>c. f c = i) xs = Some c" and "\<And>x. f (g x) = f x"
  shows "find (\<lambda>c. f c = i) (map (\<lambda>x. if f x = i then g x else x) xs) = Some (g c)"
  using assms(1)
proof (induction xs)
  case Nil
  then show ?case by simp
next
  case (Cons x xs)
  show ?case
  proof (cases "f x = i")
    case True
    with Cons.prems show ?thesis by (simp add: assms(2))
  next
    case False
    with Cons show ?thesis by simp
  qed
qed

lemma filter_map_frame:
  assumes "\<And>x. P (f x) = P x"
  shows "filter P (map f xs) = map f (filter P xs)"
  by (induction xs) (simp_all add: assms)

lemma getCall_id: "getCall d i = Some c \<Longrightarrow> cl_id c = i"
  unfolding getCall_def by (rule find_Some_id)

lemma cl_id_apply_call_update [simp]: "cl_id (apply_call_update data c) = cl_id c"
  by (simp add: apply_call_update_def)

lemma getCall_updateCall:
  assumes "getCall d i = Some c" and "updateCall d i data = Some d'"
  shows "getCall d' i = Some (apply_call_update data c)"
proof -
  have d': "d' = d\<lparr>calls := map (\<lambda>c. if cl_id c = i then apply_call_update data c else c) (calls d)\<rparr>"
    using assms(2) by (simp add: updateCall_def split: if_splits)
  have "find (\<lambda>c. cl_id c = i) (map (\<lambda>c. if cl_id c = i then apply_call_update data c else c) (calls d))
        = Some (apply_call_update data c)"
    using assms(1) unfolding getCall_def by (rule find_map_update) simp
  then show ?thesis by (simp add: d' getCall_def)
qed

lemma getCall_addCallParticipant:
  "addCallParticipant now d i u = Some d' \<Longrightarrow> getCall d' j = getCall d j"
  by (auto simp add: getCall_def addCallParticipant_def split: if_splits)

lemma getUser_calls [simp]: "getUser (d\<lparr>calls := cs\<rparr>) = getUser d"
  by (rule ext) (simp add: getUser_def)

lemma getUser_callParticipants [simp]: "getUser (d\<lparr>callParticipants := cs\<rparr>) = getUser d"
  by (rule ext) (simp add: getUser_def)

lemma attach_users_cong: "getUser d' = getUser d \<Longrightarrow> attach_users d' ps = attach_users d ps"
  by (induction ps) (auto split: option.splits)

lemma members_calls [simp]: "members (d\<lparr>calls := cs\<rparr>) cid = members d cid"
  by (simp add: members_def getParticipants_def attach_users_cong [of "d\<lparr>calls := cs\<rparr>" d])

lemma members_callParticipants [simp]:
  "members (d\<lparr>callParticipants := cs\<rparr>) cid = members d cid"
  by (simp add: members_def getParticipants_def
        attach_users_cong [of "d\<lparr>callParticipants := cs\<rparr>" d])

lemma attach_users_map_ids:
  assumes "getUser d' = getUser d" and "\<And>p. cp_userId (f p) = cp_userId p"
  shows "map (\<lambda>(p, u). cp_userId p) (attach_users d' (map f ps)) =
         map (\<lambda>(p, u). cp_userId p) (attach_users d ps)"
  by (induction ps) (simp_all add: assms split: option.splits)

lemma members_updateTypingStatus:
  "members (updateTypingStatus now d c a t) cid = members d cid"
proof -
  let ?f = "\<lambda>p. if cp_conversationId p = c \<and> cp_userId p = a
                 then p\<lparr>cp_isTyping := (case t of None \<Rightarrow> cp_isTyping p | Some b \<Rightarrow> Some b),
                        cp_typingUpdatedAt := Some now\<rparr>
                 else p"
  let ?d' = "updateTypingStatus now d c a t"
  have u: "getUser ?d' = getUser d"
    by (rule ext) (simp add: getUser_def updateTypingStatus_def)
  have f: "filter (\<lambda>p. cp_conversationId p = cid) (map ?f (conversationParticipants d)) =
           map ?f (filter (\<lambda>p. cp_conversationId p = cid) (conversationParticipants d))"
    by (rule filter_map_frame) simp
  have "conversationParticipants ?d' = map ?f (conversationParticipants d)"
    by (simp add: updateTypingStatus_def)
  then show ?thesis
    using attach_users_map_ids [OF u, of ?f]
    by (simp add: members_def getParticipants_def f)
qed

lemma updateCall_callParticipants:
  "updateCall d i data = Some d' \<Longrightarrow>
     callParticipants d' = callParticipants d \<and> members d' = members d \<and> getUser d' = getUser d"
  by (auto simp add: updateCall_def split: if_splits)

lemma accept_call_steps:
  assumes c: "getCall d i = Some c" and u: "getUser d u \<noteq> None"
  shows "\<exists>d1 d2.
           addCallParticipant now d i u = Some d1
         \<and> updateCall d1 i \<lparr>up_status = Some Active, up_startedAt = Some now, up_endedAt = None,
                              up_duration = None\<rparr> = Some d2
         \<and> getCall d2 i = Some (c\<lparr>cl_status := Active, cl_startedAt := Some now\<rparr>)
         \<and> callParticipants d2 = callParticipants d @
               [\<lparr>pt_callId = i, pt_userId = u, pt_joinedAt = Some now, pt_leftAt = None,
                 pt_isMuted = Some False, pt_isVideoOff = Some False,
                 pt_isScreenSharing = Some False\<rparr>]
         \<and> members d2 = members d"
proof -
  let ?data = "\<lparr>up_status = Some Active, up_startedAt = Some now, up_endedAt = None,
                up_duration = None\<rparr>"
  let ?row = "\<lparr>pt_callId = i, pt_userId = u, pt_joinedAt = Some now, pt_leftAt = None,
                pt_isMuted = Some False, pt_isVideoOff = Some False,
                pt_isScreenSharing = Some False\<rparr>"
  let ?d1 = "d\<lparr>callParticipants := callParticipants d @ [?row]\<rparr>"
  have a: "addCallParticipant now d i u = Some ?d1"
    using c u by (simp add: addCallParticipant_def)
  obtain d2 where d2: "updateCall ?d1 i ?data = Some d2"
    by (simp add: updateCall_def)
  have "getCall ?d1 i = Some c"
    using c getCall_addCallParticipant [OF a, of i] by simp
  then have g: "getCall d2 i = Some (apply_call_update ?data c)"
    using d2 by (rule getCall_updateCall)
  have f: "callParticipants d2 = callParticipants ?d1 \<and> members d2 = members ?d1
           \<and> getUser d2 = getUser ?d1"
    using d2 by (rule updateCall_callParticipants)
  have m: "members ?d1 = members d" by (rule ext) simp
  show ?thesis
    using a d2 g f m by (simp add: apply_call_update_def)
qed



lemma on_toggle_rows:
  assumes "truthy (conn_userId s ws)" and "truthy (p_callId p)"
  shows "callParticipants (db (on_toggle type s ws p)) =
           (case updateCallParticipant (db s) (the (p_callId p)) (the (conn_userId s ws))
                   \<lparr>mu_isMuted = (if type = ''toggle-mute'' then p_isMuted p else None),
                    mu_isVideoOff = (if type = ''toggle-video'' then p_isVideoOff p else None),
                    mu_isScreenSharing =
                      (if type = ''toggle-screen-share'' then p_isScreenSharing p else None)\<rparr> of
              None \<Rightarrow> callParticipants (db s)
            | Some d1 \<Rightarrow> callParticipants d1)"
  using assms
  by (simp add: on_toggle_def Let_def broadcastToConversation_eq split: option.splits)

lemma on_toggle_guard:
  assumes "\<not> (truthy (conn_userId s ws) \<and> truthy (p_callId p))"
  shows "on_toggle type s ws p = s"
proof -
  have "(truthy (conn_userId s ws) \<and> truthy (p_callId p)) = False"
    using assms by simp
  then show ?thesis unfolding on_toggle_def by (simp only: if_False)
qed

lemma getUser_conversations [simp]: "getUser (d\<lparr>conversations := cs\<rparr>) = getUser d"
  by (rule ext) (simp add: getUser_def)

lemma getUser_conversationParticipants [simp]:
  "getUser (d\<lparr>conversationParticipants := ps\<rparr>) = getUser d"
  by (rule ext) (simp add: getUser_def)


lemma getConversation_conversationParticipants [simp]:
  "getConversation (d\<lparr>conversationParticipants := ps\<rparr>) = getConversation d"
  by (rule ext) (simp add: getConversation_def)

lemma demo_users:
  "getUser (db demo) ''alice'' \<noteq> None" "getUser (db demo) ''bob'' \<noteq> None"
  by (simp_all add: getUser_def demo_defs)

section \<open>Connection registry\<close>

text \<open>
  Claim C1. The registry holds at most one connection for a user id: it is a map, and
  when a user id is registered through \<open>user-online\<close> on one socket and then on a
  second one, the set of sockets that a lookup of the id returns is the second socket
  alone.
\<close>

theorem register_twice_lookup_second:
  assumes "u \<noteq> []" and "p_userId p1 = Some u" and "p_userId p2 = Some u"
  shows "{c. clients (on_message t2 i2
                        (on_message t1 i1 s c1 (Envelope ''user-online'' (Some p1)))
                        c2 (Envelope ''user-online'' (Some p2))) u = Some c} = {c2}"
  using assms by (auto simp add: dispatch_def on_user_online_def Let_def)

theorem register_twice_lookup_second_witness:
  "''carol'' \<noteq> [] \<and>
   {c. clients (on_message 20 [] (on_message 10 [] demo 3
                  (Envelope ''user-online'' (Some (no_fields\<lparr>p_userId := Some ''carol''\<rparr>))))
                4 (Envelope ''user-online'' (Some (no_fields\<lparr>p_userId := Some ''carol''\<rparr>))))
          ''carol'' = Some c} = {4}"
  using register_twice_lookup_second
    [where u = "''carol''" and ?p1.0 = "no_fields\<lparr>p_userId := Some ''carol''\<rparr>"
       and ?p2.0 = "no_fields\<lparr>p_userId := Some ''carol''\<rparr>" and s = demo and ?c1.0 = 3
       and ?c2.0 = 4 and ?t1.0 = 10 and ?t2.0 = 20 and ?i1.0 = "[]" and ?i2.0 = "[]"]
  by simp

text \<open>
  Claim C2, as stated, fails: the close handler deletes the entry of the user id bound
  to the closing connection without looking at the socket stored there. After Carol has
  reconnected on socket 4, the close of the stale socket 3 removes the entry that holds
  socket 4.
\<close>

theorem stale_close_counterexample:
  "conn_userId reconnected 3 = Some ''carol''
   \<and> clients reconnected ''carol'' = Some 4
   \<and> clients (on_close 30 reconnected 3) ''carol'' = None"
  by (simp add: reconnected_def dispatch_def on_user_online_def on_close_def no_fields_def)

text \<open>
  Claim C2, amended. The close of a connection that is bound to a user id removes the
  registry entry of that id whatever socket the entry holds, the closing one or a newer
  one, and leaves the entry of every other user id as it was.
\<close>

theorem close_removes_unconditionally:
  assumes "conn_userId s ws = Some u" and "u \<noteq> []"
  shows "clients (on_close now s ws) = (clients s)(u := None)"
  using assms by (simp add: on_close_def)

theorem close_removes_unconditionally_witness:
  "conn_userId reconnected 3 = Some ''carol'' \<and> ''carol'' \<noteq> []
   \<and> clients (on_close 30 reconnected 3) = (clients reconnected)(''carol'' := None)"
proof -
  have h: "conn_userId reconnected 3 = Some ''carol''"
    by (simp add: reconnected_def dispatch_def on_user_online_def no_fields_def)
  have n: "''carol'' \<noteq> []" by simp
  show ?thesis using h n close_removes_unconditionally [OF h n, of 30] by simp
qed

text \<open>
  Claim C10. A connection that closes before any \<open>user-online\<close> message gave it a
  user id leaves the whole server state as it was: registry, presence, store and
  outbox.
\<close>

theorem close_unbound_noop:
  assumes "\<not> truthy (conn_userId s ws)"
  shows "on_close now s ws = s"
  using assms by (simp add: on_close_def)

theorem close_unbound_noop_witness:
  "\<not> truthy (conn_userId demo 3) \<and> on_close 99 demo 3 = demo"
proof -
  have h: "\<not> truthy (conn_userId demo 3)" by (simp add: demo_def)
  show ?thesis using h close_unbound_noop [OF h, of 99] by simp
qed

section \<open>Typing\<close>

text \<open>
  Claim C8. A \<open>typing\<close> message of an identified user \<open>a\<close> for conversation
  \<open>c\<close> appends to the outbox one \<open>typing-status\<close> event for each connected
  member of \<open>c\<close> other than \<open>a\<close>: the recipients are exactly those members, and
  \<open>a\<close> is not among them.
\<close>

theorem typing_fanout:
  assumes "conn_userId s ws = Some a" and "a \<noteq> []"
    and "p_conversationId p = Some c" and "c \<noteq> []"
  shows "let s' = on_message now uuid s ws (Envelope ''typing'' (Some p));
             new = deliveries s (filter (\<lambda>m. m \<noteq> a) (members (db s) c))
                     (TypingStatus c a (p_isTyping p))
         in outbox s' = outbox s @ new
          \<and> recipient ` set new = {m \<in> set (members (db s) c). m \<noteq> a \<and> connected s m}
          \<and> a \<notin> recipient ` set new"
proof -
  have "members (updateTypingStatus now (db s) c a (p_isTyping p)) c = members (db s) c"
    by (rule members_updateTypingStatus)
  then show ?thesis
    using assms
    by (auto simp add: dispatch_def on_typing_def Let_def broadcastToConversation_eq
          recipients_deliveries)
qed

theorem typing_fanout_witness:
  "conn_userId demo 1 = Some ''alice'' \<and> ''alice'' \<noteq> []
   \<and> p_conversationId (no_fields\<lparr>p_conversationId := Some ''room'', p_isTyping := Some True\<rparr>)
       = Some ''room''
   \<and> ''room'' \<noteq> []
   \<and> outbox (on_message 70000 [] demo 1
        (Envelope ''typing''
           (Some (no_fields\<lparr>p_conversationId := Some ''room'', p_isTyping := Some True\<rparr>)))) =
      [\<lparr>recipient = ''bob'', via = 2, sent = TypingStatus ''room'' ''alice'' (Some True)\<rparr>]"
proof -
  let ?p = "no_fields\<lparr>p_conversationId := Some ''room'', p_isTyping := Some True\<rparr>"
  have h1: "conn_userId demo 1 = Some ''alice''" by (simp add: demo_def)
  have h2: "''alice'' \<noteq> []" by simp
  have h3: "p_conversationId ?p = Some ''room''" by simp
  have h4: "''room'' \<noteq> []" by simp
  have m: "members (db demo) ''room'' = [''alice'', ''bob'', ''carol'']"
    by (simp add: members_def getParticipants_def getUser_def demo_defs)
  have e: "outbox demo @ deliveries demo (filter (\<lambda>m. m \<noteq> ''alice'') (members (db demo) ''room''))
                         (TypingStatus ''room'' ''alice'' (p_isTyping ?p)) =
           [\<lparr>recipient = ''bob'', via = 2, sent = TypingStatus ''room'' ''alice'' (Some True)\<rparr>]"
    unfolding m by (simp add: deliveries_def connected_def demo_def)
  from typing_fanout [OF h1 h2 h3 h4, where now = 70000 and uuid = "[]"]
  have "outbox (on_message 70000 [] demo 1 (Envelope ''typing'' (Some ?p))) =
        outbox demo @ deliveries demo (filter (\<lambda>m. m \<noteq> ''alice'') (members (db demo) ''room''))
                        (TypingStatus ''room'' ''alice'' (p_isTyping ?p))"
    unfolding Let_def by blast
  with h1 h2 h3 h4 e show ?thesis by simp
qed

section \<open>Call lifecycle\<close>

text \<open>
  Claim C3, as stated, fails: the \<open>accept-call\<close> handler does not read the status
  of the call. When Bob, a stored user, accepts the ended call, its status becomes
  active.
\<close>

theorem accept_ended_counterexample:
  "map_option cl_status (getCall (db demo) ''call-1'') = Some Ended
   \<and> map_option cl_status
        (getCall (db (on_message 40000 [] demo 2
                        (Envelope ''accept-call'' (Some (no_fields\<lparr>p_callId := Some ''call-1''\<rparr>)))))
           ''call-1'') = Some Active"
  by (simp add: demo_defs dispatch_def on_accept_call_def getCall_def getUser_def
        addCallParticipant_def updateCall_def apply_call_update_def
        broadcastToConversation_eq Let_def)

text \<open>
  Claim C3, amended. An \<open>accept-call\<close> message for a call whose status is ended,
  sent by an identified user who has a row in \<open>users\<close>, is processed like one for any
  other existing call: the status becomes active, \<open>startedAt\<close> becomes the time of
  the acceptance, one more participant row for the accepting user is stored, and
  \<open>call-accepted\<close> goes to the members of the call's conversation. When the
  connection is bound to an id without a row in \<open>users\<close>, the insert of the
  participant row raises and nothing changes.
\<close>

theorem accept_after_ended_proceeds:
  assumes "conn_userId s ws = Some u" and "u \<noteq> []"
    and "p_callId p = Some i" and "i \<noteq> []"
    and "getCall (db s) i = Some c" and "cl_status c = Ended"
  shows "let s' = on_message now uuid s ws (Envelope ''accept-call'' (Some p))
         in (getUser (db s) u \<noteq> None \<longrightarrow>
               map_option cl_status (getCall (db s') i) = Some Active
             \<and> map_option cl_startedAt (getCall (db s') i) = Some (Some now)
             \<and> length (filter (\<lambda>r. pt_callId r = i \<and> pt_userId r = u)
                         (callParticipants (db s'))) =
                 Suc (length (filter (\<lambda>r. pt_callId r = i \<and> pt_userId r = u)
                                (callParticipants (db s))))
             \<and> (truthy (cl_conversationId c) \<longrightarrow>
                  outbox s' = outbox s @
                    deliveries s (members (db s) (the (cl_conversationId c)))
                      (CallAccepted i u)))
          \<and> (getUser (db s) u = None \<longrightarrow> s' = s)"
proof (cases "getUser (db s) u")
  case None
  have id: "cl_id c = i" using assms(5) by (rule getCall_id)
  show ?thesis
    using assms None id
    by (simp add: dispatch_def on_accept_call_def addCallParticipant_def)
next
  case (Some usr)
  then have u: "getUser (db s) u \<noteq> None" by simp
  have id: "cl_id c = i" using assms(5) by (rule getCall_id)
  from accept_call_steps [OF assms(5) u, of now]
  obtain d1 d2 where
    "addCallParticipant now (db s) i u = Some d1"
    "updateCall d1 i \<lparr>up_status = Some Active, up_startedAt = Some now, up_endedAt = None,
                       up_duration = None\<rparr> = Some d2"
    "getCall d2 i = Some (c\<lparr>cl_status := Active, cl_startedAt := Some now\<rparr>)"
    "callParticipants d2 = callParticipants (db s) @
       [\<lparr>pt_callId = i, pt_userId = u, pt_joinedAt = Some now, pt_leftAt = None,
         pt_isMuted = Some False, pt_isVideoOff = Some False, pt_isScreenSharing = Some False\<rparr>]"
    "members d2 = members (db s)"
    by blast
  then show ?thesis
    using assms id Some
    by (simp add: dispatch_def on_accept_call_def Let_def broadcastToConversation_eq)
qed

theorem accept_after_ended_proceeds_witness:
  "conn_userId demo 2 = Some ''bob'' \<and> ''bob'' \<noteq> []
   \<and> p_callId (no_fields\<lparr>p_callId := Some ''call-1''\<rparr>) = Some ''call-1'' \<and> ''call-1'' \<noteq> []
   \<and> getCall (db demo) ''call-1'' = Some finished_call \<and> cl_status finished_call = Ended
   \<and> getUser (db demo) ''bob'' \<noteq> None
   \<and> map_option cl_status
        (getCall (db (on_message 40000 [] demo 2
                        (Envelope ''accept-call'' (Some (no_fields\<lparr>p_callId := Some ''call-1''\<rparr>)))))
           ''call-1'') = Some Active"
proof -
  let ?p = "no_fields\<lparr>p_callId := Some ''call-1''\<rparr>"
  have h1: "conn_userId demo 2 = Some ''bob''" by (simp add: demo_def)
  have h2: "''bob'' \<noteq> []" by simp
  have h3: "p_callId ?p = Some ''call-1''" by simp
  have h4: "''call-1'' \<noteq> []" by simp
  have h5: "getCall (db demo) ''call-1'' = Some finished_call"
    by (simp add: getCall_def demo_defs)
  have h6: "cl_status finished_call = Ended" by (simp add: finished_call_def)
  have h7: "getUser (db demo) ''bob'' \<noteq> None" by (rule demo_users)
  from accept_after_ended_proceeds [OF h1 h2 h3 h4 h5 h6, where now = 40000 and uuid = "[]"] h7
  have "map_option cl_status
          (getCall (db (on_message 40000 [] demo 2 (Envelope ''accept-call'' (Some ?p)))) ''call-1'')
        = Some Active"
    unfolding Let_def by blast
  with h1 h2 h3 h4 h5 h6 h7 show ?thesis by blast
qed

text \<open>
  Claim C4, as stated, fails in one part: \<open>startedAt\<close> is written on every
  acceptance. The running call started at 50000; after Bob accepts it at 80000 it
  started at 80000.
\<close>

theorem accept_restamps_counterexample:
  "map_option cl_startedAt (getCall (db demo) ''call-3'') = Some (Some 50000)
   \<and> map_option cl_startedAt
        (getCall (db (on_message 80000 [] demo 2
                        (Envelope ''accept-call'' (Some (no_fields\<lparr>p_callId := Some ''call-3''\<rparr>)))))
           ''call-3'') = Some (Some 80000)"
  by (simp add: demo_defs dispatch_def on_accept_call_def getCall_def getUser_def
        addCallParticipant_def updateCall_def apply_call_update_def
        broadcastToConversation_eq Let_def)

text \<open>
  Claim C4, amended. When an identified user who has a row in \<open>users\<close> accepts an
  existing call, a participant row for that user is appended, the status becomes active
  and \<open>startedAt\<close> becomes the time of the acceptance whether or not it was set
  before; every other column of the call is kept. When the call belongs to a
  conversation, \<open>call-accepted\<close> is sent to every connected member of it, the
  accepting user included. When the connection is bound to an id without a row in
  \<open>users\<close>, the insert raises and nothing changes.
\<close>

theorem accept_call_effect:
  assumes "conn_userId s ws = Some u" and "u \<noteq> []"
    and "p_callId p = Some i" and "i \<noteq> []"
    and "getCall (db s) i = Some c"
  shows "let s' = on_message now uuid s ws (Envelope ''accept-call'' (Some p))
         in (getUser (db s) u \<noteq> None \<longrightarrow>
               getCall (db s') i = Some (c\<lparr>cl_status := Active, cl_startedAt := Some now\<rparr>)
             \<and> callParticipants (db s') = callParticipants (db s) @
                  [\<lparr>pt_callId = i, pt_userId = u, pt_joinedAt = Some now, pt_leftAt = None,
                    pt_isMuted = Some False, pt_isVideoOff = Some False,
                    pt_isScreenSharing = Some False\<rparr>]
             \<and> outbox s' = outbox s @
                  (if truthy (cl_conversationId c)
                   then deliveries s (members (db s) (the (cl_conversationId c)))
                          (CallAccepted i u)
                   else []))
          \<and> (getUser (db s) u = None \<longrightarrow> s' = s)"
proof (cases "getUser (db s) u")
  case None
  have id: "cl_id c = i" using assms(5) by (rule getCall_id)
  show ?thesis
    using assms None id
    by (simp add: dispatch_def on_accept_call_def addCallParticipant_def)
next
  case (Some usr)
  then have u: "getUser (db s) u \<noteq> None" by simp
  have id: "cl_id c = i" using assms(5) by (rule getCall_id)
  from accept_call_steps [OF assms(5) u, of now]
  obtain d1 d2 where
    "addCallParticipant now (db s) i u = Some d1"
    "updateCall d1 i \<lparr>up_status = Some Active, up_startedAt = Some now, up_endedAt = None,
                       up_duration = None\<rparr> = Some d2"
    "getCall d2 i = Some (c\<lparr>cl_status := Active, cl_startedAt := Some now\<rparr>)"
    "callParticipants d2 = callParticipants (db s) @
       [\<lparr>pt_callId = i, pt_userId = u, pt_joinedAt = Some now, pt_leftAt = None,
         pt_isMuted = Some False, pt_isVideoOff = Some False, pt_isScreenSharing = Some False\<rparr>]"
    "members d2 = members (db s)"
    by blast
  then show ?thesis
    using assms id Some
    by (simp add: dispatch_def on_accept_call_def Let_def broadcastToConversation_eq)
qed

theorem accept_call_effect_witness:
  "conn_userId demo 2 = Some ''bob'' \<and> ''bob'' \<noteq> []
   \<and> p_callId (no_fields\<lparr>p_callId := Some ''call-2''\<rparr>) = Some ''call-2'' \<and> ''call-2'' \<noteq> []
   \<and> getCall (db demo) ''call-2'' = Some ringing_call
   \<and> getUser (db demo) ''bob'' \<noteq> None
   \<and> getCall (db (on_message 41000 [] demo 2
                     (Envelope ''accept-call'' (Some (no_fields\<lparr>p_callId := Some ''call-2''\<rparr>)))))
        ''call-2'' = Some (ringing_call\<lparr>cl_status := Active, cl_startedAt := Some 41000\<rparr>)"
proof -
  let ?p = "no_fields\<lparr>p_callId := Some ''call-2''\<rparr>"
  have h1: "conn_userId demo 2 = Some ''bob''" by (simp add: demo_def)
  have h2: "''bob'' \<noteq> []" by simp
  have h3: "p_callId ?p = Some ''call-2''" by simp
  have h4: "''call-2'' \<noteq> []" by simp
  have h5: "getCall (db demo) ''call-2'' = Some ringing_call"
    by (simp add: getCall_def demo_defs)
  have h6: "getUser (db demo) ''bob'' \<noteq> None" by (rule demo_users)
  from accept_call_effect [OF h1 h2 h3 h4 h5, where now = 41000 and uuid = "[]"] h6
  have "getCall (db (on_message 41000 [] demo 2 (Envelope ''accept-call'' (Some ?p)))) ''call-2''
        = Some (ringing_call\<lparr>cl_status := Active, cl_startedAt := Some 41000\<rparr>)"
    unfolding Let_def by blast
  with h1 h2 h3 h4 h5 h6 show ?thesis by blast
qed

text \<open>
  Claim C5. Ending an existing call sets its status to ended, its \<open>endedAt\<close> to the
  current time and its duration to the whole seconds between \<open>startedAt\<close> and
  \<open>endedAt\<close>, rounded down, or to 0 when \<open>startedAt\<close> is unset. The
  \<open>call-ended\<close> event sent to the members of the call's conversation carries that
  duration and the id of the user who ended the call.
\<close>

theorem end_call_duration:
  assumes "conn_userId s ws = Some u" and "u \<noteq> []"
    and "p_callId p = Some i" and "i \<noteq> []"
    and "getCall (db s) i = Some c"
  shows "let s' = on_message now uuid s ws (Envelope ''end-call'' (Some p));
             duration = (case cl_startedAt c of None \<Rightarrow> 0 | Some t \<Rightarrow> (now - t) div 1000)
         in getCall (db s') i =
              Some (c\<lparr>cl_status := Ended, cl_endedAt := Some now, cl_duration := Some duration\<rparr>)
          \<and> outbox s' = outbox s @
               (if truthy (cl_conversationId c)
                then deliveries s (members (db s) (the (cl_conversationId c)))
                       (CallEnded i u duration)
                else [])"
proof -
  let ?data = "\<lparr>up_status = Some Ended, up_startedAt = None, up_endedAt = Some now,
                up_duration = Some (call_duration (cl_startedAt c) now)\<rparr>"
  obtain d1 where d1: "updateCall (db s) i ?data = Some d1"
    by (simp add: updateCall_def)
  have id: "cl_id c = i" using assms(5) by (rule getCall_id)
  have g: "getCall d1 i = Some (apply_call_update ?data c)"
    using assms(5) d1 by (rule getCall_updateCall)
  have m: "members d1 = members (db s)"
    using d1 by (auto simp add: updateCall_def)
  have dur: "call_duration (cl_startedAt c) now =
             (case cl_startedAt c of None \<Rightarrow> 0 | Some t \<Rightarrow> (now - t) div 1000)"
    by (simp add: call_duration_def split: option.splits)
  show ?thesis
    using assms d1 id g m dur
    by (simp add: dispatch_def on_end_call_def Let_def broadcastToConversation_eq
          apply_call_update_def)
qed

theorem end_call_duration_witness:
  "conn_userId demo 1 = Some ''alice'' \<and> ''alice'' \<noteq> []
   \<and> p_callId (no_fields\<lparr>p_callId := Some ''call-3''\<rparr>) = Some ''call-3'' \<and> ''call-3'' \<noteq> []
   \<and> getCall (db demo) ''call-3'' = Some running_call
   \<and> getCall (db (on_message 80000 [] demo 1
                     (Envelope ''end-call'' (Some (no_fields\<lparr>p_callId := Some ''call-3''\<rparr>)))))
        ''call-3'' =
      Some (running_call\<lparr>cl_status := Ended, cl_endedAt := Some 80000, cl_duration := Some 30\<rparr>)"
proof -
  let ?p = "no_fields\<lparr>p_callId := Some ''call-3''\<rparr>"
  have h1: "conn_userId demo 1 = Some ''alice''" by (simp add: demo_def)
  have h2: "''alice'' \<noteq> []" by simp
  have h3: "p_callId ?p = Some ''call-3''" by simp
  have h4: "''call-3'' \<noteq> []" by simp
  have h5: "getCall (db demo) ''call-3'' = Some running_call"
    by (simp add: getCall_def demo_defs)
  have d: "(case cl_startedAt running_call of None \<Rightarrow> 0 | Some t \<Rightarrow> (80000 - t) div 1000) = 30"
    by (simp add: running_call_def)
  from end_call_duration [OF h1 h2 h3 h4 h5, where now = 80000 and uuid = "[]"]
  have "getCall (db (on_message 80000 [] demo 1 (Envelope ''end-call'' (Some ?p)))) ''call-3''
        = Some (running_call\<lparr>cl_status := Ended, cl_endedAt := Some 80000, cl_duration := Some 30\<rparr>)"
    unfolding Let_def d by blast
  with h1 h2 h3 h4 h5 show ?thesis by blast
qed




text \<open>
  Claim C7, as stated, fails: the handler acts only on a message that carries a call
  id. Alice is in the running call with her microphone on; her message
  \<open>toggle-mute{isMuted: true}\<close> names no call, and no flag of any row changes.
\<close>

theorem toggle_without_call_id_counterexample:
  "leg ''call-3'' ''alice'' \<in> set (callParticipants (db demo))
   \<and> pt_isMuted (leg ''call-3'' ''alice'') = Some False
   \<and> callParticipants
        (db (on_message 60000 [] demo 1
               (Envelope ''toggle-mute'' (Some (no_fields\<lparr>p_isMuted := Some True\<rparr>))))) =
      callParticipants (db demo)"
  by (simp add: dispatch_def on_toggle_def no_fields_def demo_def demo_db_def leg_def)

text \<open>
  Claim C7, amended. A media toggle rewrites at most one flag: when the sender is
  identified and the message carries a non-empty call id and the flag of its own type,
  exactly that flag is rewritten on the sender's own participant rows of that call;
  when the call id or that flag is missing, or the sender is not identified, no flag is
  rewritten. In every case the other two flags of those rows, and every other row, are
  as before, whatever other flags the payload carries.
\<close>

theorem toggle_touches_own_flag_only:
  "callParticipants (db (on_message now uuid s ws (Envelope ''toggle-mute'' (Some p)))) =
     (if truthy (conn_userId s ws) \<and> truthy (p_callId p) \<and> p_isMuted p \<noteq> None
      then map (\<lambda>r. if pt_callId r = the (p_callId p) \<and> pt_userId r = the (conn_userId s ws)
                     then r\<lparr>pt_isMuted := p_isMuted p\<rparr> else r)
               (callParticipants (db s))
      else callParticipants (db s))
   \<and> callParticipants (db (on_message now uuid s ws (Envelope ''toggle-video'' (Some p)))) =
     (if truthy (conn_userId s ws) \<and> truthy (p_callId p) \<and> p_isVideoOff p \<noteq> None
      then map (\<lambda>r. if pt_callId r = the (p_callId p) \<and> pt_userId r = the (conn_userId s ws)
                     then r\<lparr>pt_isVideoOff := p_isVideoOff p\<rparr> else r)
               (callParticipants (db s))
      else callParticipants (db s))
   \<and> callParticipants (db (on_message now uuid s ws
                              (Envelope ''toggle-screen-share'' (Some p)))) =
     (if truthy (conn_userId s ws) \<and> truthy (p_callId p) \<and> p_isScreenSharing p \<noteq> None
      then map (\<lambda>r. if pt_callId r = the (p_callId p) \<and> pt_userId r = the (conn_userId s ws)
                     then r\<lparr>pt_isScreenSharing := p_isScreenSharing p\<rparr> else r)
               (callParticipants (db s))
      else callParticipants (db s))"
proof (cases "truthy (conn_userId s ws) \<and> truthy (p_callId p)")
  case False
  then have t: "on_toggle type s ws p = s" for type
    by (rule on_toggle_guard)
  have r: "(truthy (conn_userId s ws) \<and> truthy (p_callId p) \<and> X) = False" for X
    using False by blast
  show ?thesis by (simp add: dispatch_def t r)
next
  case True
  then have g: "truthy (conn_userId s ws)" "truthy (p_callId p)" by simp_all
  have mute: "callParticipants (db (on_toggle ''toggle-mute'' s ws p)) =
     (if p_isMuted p \<noteq> None
      then map (\<lambda>r. if pt_callId r = the (p_callId p) \<and> pt_userId r = the (conn_userId s ws)
                     then r\<lparr>pt_isMuted := p_isMuted p\<rparr> else r)
               (callParticipants (db s))
      else callParticipants (db s))"
    unfolding on_toggle_rows [OF g]
    by (cases "p_isMuted p") (simp_all add: updateCallParticipant_def apply_media_update_def)
  have video: "callParticipants (db (on_toggle ''toggle-video'' s ws p)) =
     (if p_isVideoOff p \<noteq> None
      then map (\<lambda>r. if pt_callId r = the (p_callId p) \<and> pt_userId r = the (conn_userId s ws)
                     then r\<lparr>pt_isVideoOff := p_isVideoOff p\<rparr> else r)
               (callParticipants (db s))
      else callParticipants (db s))"
    unfolding on_toggle_rows [OF g]
    by (cases "p_isVideoOff p") (simp_all add: updateCallParticipant_def apply_media_update_def)
  have screen: "callParticipants (db (on_toggle ''toggle-screen-share'' s ws p)) =
     (if p_isScreenSharing p \<noteq> None
      then map (\<lambda>r. if pt_callId r = the (p_callId p) \<and> pt_userId r = the (conn_userId s ws)
                     then r\<lparr>pt_isScreenSharing := p_isScreenSharing p\<rparr> else r)
               (callParticipants (db s))
      else callParticipants (db s))"
    unfolding on_toggle_rows [OF g]
    by (cases "p_isScreenSharing p") (simp_all add: updateCallParticipant_def apply_media_update_def)
  show ?thesis
    using True mute video screen by (simp add: dispatch_def)
qed

theorem toggle_touches_own_flag_only_witness:
  "callParticipants (db (on_message 60000 [] demo 1
        (Envelope ''toggle-mute''
           (Some (no_fields\<lparr>p_callId := Some ''call-3'', p_isMuted := Some True\<rparr>))))) =
      [leg ''call-1'' ''alice'', leg ''call-1'' ''bob'', leg ''call-2'' ''alice'',
       (leg ''call-3'' ''alice'')\<lparr>pt_isMuted := Some True\<rparr>, leg ''call-3'' ''carol'']"
proof -
  let ?p = "no_fields\<lparr>p_callId := Some ''call-3'', p_isMuted := Some True\<rparr>"
  have g: "truthy (conn_userId demo 1) \<and> truthy (p_callId ?p) \<and> p_isMuted ?p \<noteq> None"
    by (simp add: demo_def)
  have m: "map (\<lambda>r. if pt_callId r = the (p_callId ?p) \<and> pt_userId r = the (conn_userId demo 1)
                     then r\<lparr>pt_isMuted := p_isMuted ?p\<rparr> else r) (callParticipants (db demo)) =
           [leg ''call-1'' ''alice'', leg ''call-1'' ''bob'', leg ''call-2'' ''alice'',
            (leg ''call-3'' ''alice'')\<lparr>pt_isMuted := Some True\<rparr>, leg ''call-3'' ''carol'']"
    by (simp add: demo_def demo_db_def leg_def)
  from toggle_touches_own_flag_only [of 60000 "[]" demo 1 ?p]
  have "callParticipants (db (on_message 60000 [] demo 1 (Envelope ''toggle-mute'' (Some ?p)))) =
        (if truthy (conn_userId demo 1) \<and> truthy (p_callId ?p) \<and> p_isMuted ?p \<noteq> None
         then map (\<lambda>r. if pt_callId r = the (p_callId ?p) \<and> pt_userId r = the (conn_userId demo 1)
                     then r\<lparr>pt_isMuted := p_isMuted ?p\<rparr> else r) (callParticipants (db demo))
         else callParticipants (db demo))"
    by blast
  then show ?thesis using g m by simp
qed

section \<open>Direct conversations\<close>

















end
